theory Spec2Isabelle
  imports
    Complex_Main
    "HOL-Library.Sublist"
    "HOL-Library.Multiset"
    "HOL-Library.Char_ord"
    "HOL-Library.List_Lexorder"
    "HOL-Library.Product_Lexorder"
begin

section \<open>The movie table\<close>

text \<open>
  The class \<^verbatim>\<open>MovieRecommender\<close> of \<^verbatim>\<open>app.py\<close> keeps one pandas table, \<^verbatim>\<open>self.df\<close>,
  read from a CSV file. A row of that table is a record of seven cells; a cell that the
  file leaves empty is pandas' missing value (NaN), here \<open>None\<close>.

  \<^item> \<open>Title\<close>, \<open>Genre\<close>, \<open>Director\<close>, \<open>Description\<close> are cells of columns of strings (pandas'
    object dtype, on which the \<^verbatim>\<open>.str\<close> accessor is defined): a string or NaN. A column
    that pandas reads as numbers, such as one whose cells are all empty, is no column of
    strings and is outside this model.
  \<^item> \<open>Rating\<close> is a cell of a float column. Every float is a rational number and the
    program only compares ratings (\<^verbatim>\<open>>=\<close>, \<^verbatim>\<open><\<close>, sorting), which is exact on floats, so a
    rating is a \<open>rat\<close>.
  \<^item> \<open>Year\<close> and \<open>Runtime\<close> are cells of columns of whole numbers (a float column in pandas
    as soon as a cell is missing, its values still whole).
  \<^item> The rating threshold of \<^verbatim>\<open>filter_movies\<close> is a Python \<^verbatim>\<open>int\<close>, as both callers pass it
    (the slider's value, or \<open>-1\<close>), so \<^verbatim>\<open>rating + 1\<close> is exact.

  Characters are ASCII: \<open>lower_char\<close> and \<open>is_space\<close> below are Python's \<^verbatim>\<open>str.lower\<close> and
  \<^verbatim>\<open>str.isspace\<close> on ASCII text. The row labels of a table (its index) are left out: no
  statement of the class reads them.
\<close>

record movie =
  Title :: "string option"
  Genre :: "string option"
  Rating :: "rat option"
  Year :: "int option"
  Runtime :: "int option"
  Director :: "string option"
  Description :: "string option"

type_synonym dataframe = "movie list"

text \<open>The exceptions of Python that a call can end in.\<close>

datatype error =
    AttributeError           \<comment> \<open>\<^verbatim>\<open>'float' object has no attribute 'split'\<close>\<close>
  | ReError                  \<comment> \<open>\<^verbatim>\<open>re.error\<close>, raised by \<^verbatim>\<open>re.compile\<close>\<close>
  | RecursionError           \<comment> \<open>raised by \<^verbatim>\<open>re.compile\<close> on a pattern nested too deep\<close>
  | OtherException string    \<comment> \<open>any other exception, by the name of its class\<close>

section \<open>Python strings\<close>

definition lower_char :: "char \<Rightarrow> char" where
  "lower_char c =
     (case map_of (zip ''ABCDEFGHIJKLMNOPQRSTUVWXYZ'' ''abcdefghijklmnopqrstuvwxyz'') c of
        None \<Rightarrow> c
      | Some d \<Rightarrow> d)"

definition str_lower :: "string \<Rightarrow> string" where
  "str_lower s = map lower_char s"

definition is_space :: "char \<Rightarrow> bool" where
  "is_space c \<longleftrightarrow>
     c \<in> set [CHR 0x09, CHR 0x0A, CHR 0x0B, CHR 0x0C, CHR 0x0D,
               CHR 0x1C, CHR 0x1D, CHR 0x1E, CHR 0x1F, CHR 0x20]"

definition strip :: "string \<Rightarrow> string" where
  "strip s = rev (dropWhile is_space (rev (dropWhile is_space s)))"

text \<open>\<^verbatim>\<open>s.split(sep)\<close> for a one-character separator: never empty, keeps empty pieces.\<close>

fun split :: "string \<Rightarrow> char \<Rightarrow> string list" where
  "split [] sep = [[]]"
| "split (c # cs) sep =
     (if c = sep then [] # split cs sep
      else (case split cs sep of
              [] \<Rightarrow> [[c]]
            | w # ws \<Rightarrow> (c # w) # ws))"

text \<open>\<^verbatim>\<open>sep.join(xs)\<close>.\<close>

fun join :: "string \<Rightarrow> string list \<Rightarrow> string" where
  "join sep [] = []"
| "join sep [x] = x"
| "join sep (x # y # ys) = x @ sep @ join sep (y # ys)"

section \<open>Regular expressions\<close>

text \<open>
  \<^verbatim>\<open>Series.str.contains(pat)\<close> has \<^verbatim>\<open>regex=True\<close> by default: it calls \<^verbatim>\<open>re.compile(pat, flags)\<close>
  and keeps the cells where \<^verbatim>\<open>search\<close> of the compiled pattern finds a match. Python's \<^verbatim>\<open>re\<close>
  is a library, not code of the program, and enters the model in two parts.

  \<^item> The patterns made of ordinary characters, \<^verbatim>\<open>.\<close>, \<^verbatim>\<open>|\<close> and groups \<^verbatim>\<open>( )\<close> nested at most
    \<open>max_group_depth\<close> deep are parsed and matched by the functions below.
  \<^item> On every other pattern (one that holds a backslash or one of \<^verbatim>\<open>[ { * + ? ^ $\<close>, or
    nests its groups deeper) the answer of \<^verbatim>\<open>re.compile\<close> is a parameter, \<open>lib\<close>, of the
    model: an exception, or the compiled pattern. The theorems of the claims on
    \<^verbatim>\<open>filter_movies\<close> hold for every \<open>lib\<close>, hence for the one Python has.

  A compiled pattern is taken as what its \<^verbatim>\<open>search\<close> answers on a string.
\<close>

datatype regex =
    Lit char
  | AnyChar
  | Empty
  | Seq regex regex
  | Alt regex regex

definition unsupported_chars :: "char list" where
  "unsupported_chars =
     [CHR 0x5C, CHR ''['', CHR ''{'', CHR ''*'', CHR ''+'', CHR ''?'', CHR ''^'', CHR ''$'']"

definition special_chars :: "char list" where
  "special_chars = [CHR ''.'', CHR ''|'', CHR ''('', CHR '')''] @ unsupported_chars"

fun mk_seq :: "regex list \<Rightarrow> regex" where
  "mk_seq [] = Empty"
| "mk_seq (r # rs) = Seq r (mk_seq rs)"

fun mk_alt :: "regex list \<Rightarrow> regex" where
  "mk_alt [] = Empty"
| "mk_alt [r] = r"
| "mk_alt (r # q # rs) = Alt r (mk_alt (q # rs))"

text \<open>
  A branch under construction: the finished alternatives and the items of the current
  one, both newest first.
\<close>

definition close_group :: "regex list \<Rightarrow> regex list \<Rightarrow> regex" where
  "close_group alts cur = mk_alt (rev (mk_seq (rev cur) # alts))"

text \<open>
  The parser reads the pattern from left to right with a stack of the enclosing groups.
  A \<^verbatim>\<open>)\<close> with no open group is \<^verbatim>\<open>re.error: unbalanced parenthesis\<close>; a group still open at
  the end is \<^verbatim>\<open>re.error: missing ), unterminated subpattern\<close>: both are \<open>Invalid\<close>. At the
  first character of the other kind, or at a group nested too deep, the parser stops
  with \<open>Outside\<close>: the pattern is not one of the modelled syntax.
\<close>

datatype parsed =
    Parsed regex
  | Invalid
  | Outside

definition max_group_depth :: nat where
  "max_group_depth = 10"

fun parse ::
  "string \<Rightarrow> (regex list \<times> regex list) list \<Rightarrow> regex list \<Rightarrow> regex list \<Rightarrow> parsed"
where
  "parse [] stack alts cur =
     (if stack = [] then Parsed (close_group alts cur) else Invalid)"
| "parse (c # cs) stack alts cur =
     (if c = CHR ''|'' then parse cs stack (mk_seq (rev cur) # alts) []
      else if c = CHR ''('' then
        (if length stack < max_group_depth then parse cs ((alts, cur) # stack) [] []
         else Outside)
      else if c = CHR '')'' then
        (case stack of
           [] \<Rightarrow> Invalid
         | (alts', cur') # stack' \<Rightarrow> parse cs stack' alts' (close_group alts cur # cur'))
      else if c = CHR ''.'' then parse cs stack alts (AnyChar # cur)
      else if c \<in> set unsupported_chars then Outside
      else parse cs stack alts (Lit c # cur))"

definition char_eq :: "bool \<Rightarrow> char \<Rightarrow> char \<Rightarrow> bool" where
  "char_eq ignorecase c d \<longleftrightarrow> (if ignorecase then lower_char c = lower_char d else c = d)"

text \<open>
  \<open>rmatch ic r s\<close> lists what is left of \<open>s\<close> after each way \<open>r\<close> matches at its start,
  in the order a backtracking matcher tries them. \<^verbatim>\<open>.\<close> matches any character but a
  newline.
\<close>

fun rmatch :: "bool \<Rightarrow> regex \<Rightarrow> string \<Rightarrow> string list" where
  "rmatch ic (Lit c) s =
     (case s of [] \<Rightarrow> [] | d # t \<Rightarrow> if char_eq ic c d then [t] else [])"
| "rmatch ic AnyChar s =
     (case s of [] \<Rightarrow> [] | d # t \<Rightarrow> if d \<noteq> CHR 0x0A then [t] else [])"
| "rmatch ic Empty s = [s]"
| "rmatch ic (Seq a b) s = concat (map (rmatch ic b) (rmatch ic a s))"
| "rmatch ic (Alt a b) s = rmatch ic a s @ rmatch ic b s"

text \<open>\<^verbatim>\<open>pattern.search(s) is not None\<close>: a match starting at some position of \<open>s\<close>.\<close>

fun re_search :: "bool \<Rightarrow> regex \<Rightarrow> string \<Rightarrow> bool" where
  "re_search ic r [] \<longleftrightarrow> rmatch ic r [] \<noteq> []"
| "re_search ic r (c # s) \<longleftrightarrow> rmatch ic r (c # s) \<noteq> [] \<or> re_search ic r s"

text \<open>
  \<^verbatim>\<open>re.compile(pat, flags)\<close>, where \<open>ignorecase\<close> says whether \<open>flags\<close> holds \<^verbatim>\<open>re.IGNORECASE\<close>: the
  model on a pattern of the modelled syntax, the library on any other.
\<close>

type_synonym compiled = "string \<Rightarrow> bool"

type_synonym re_library = "bool \<Rightarrow> string \<Rightarrow> error + compiled"

definition re_compile :: "re_library \<Rightarrow> string \<Rightarrow> bool \<Rightarrow> error + compiled" where
  "re_compile lib pat ignorecase =
     (case parse pat [] [] [] of
        Parsed r \<Rightarrow> Inr (re_search ignorecase r)
      | Invalid \<Rightarrow> Inl ReError
      | Outside \<Rightarrow> lib ignorecase pat)"

section \<open>The pandas operations the program uses\<close>

text \<open>
  \<^verbatim>\<open>col.str.contains(pat, case=..., na=False)\<close>: the pattern is compiled once, before any
  cell is looked at; a missing cell gives \<open>False\<close>.
\<close>

definition str_contains ::
  "re_library \<Rightarrow> string option list \<Rightarrow> string \<Rightarrow> bool \<Rightarrow> error + bool list"
where
  "str_contains lib col pat case_sensitive =
     (case re_compile lib pat (\<not> case_sensitive) of
        Inl e \<Rightarrow> Inl e
      | Inr search \<Rightarrow>
          Inr (map (\<lambda>x. case x of None \<Rightarrow> False | Some s \<Rightarrow> search s) col))"

text \<open>\<^verbatim>\<open>col.str.lower()\<close>: a missing cell stays missing.\<close>

definition col_str_lower :: "string option list \<Rightarrow> string option list" where
  "col_str_lower col = map (map_option str_lower) col"

text \<open>\<^verbatim>\<open>col >= n\<close> and \<^verbatim>\<open>col < n\<close> on a numeric column: a comparison with NaN is \<open>False\<close>.\<close>

definition col_ge :: "rat option list \<Rightarrow> int \<Rightarrow> bool list" where
  "col_ge col n = map (\<lambda>x. case x of None \<Rightarrow> False | Some v \<Rightarrow> of_int n \<le> v) col"

definition col_lt :: "rat option list \<Rightarrow> int \<Rightarrow> bool list" where
  "col_lt col n = map (\<lambda>x. case x of None \<Rightarrow> False | Some v \<Rightarrow> v < of_int n) col"

text \<open>\<^verbatim>\<open>m1 & m2\<close> on two masks of the same table.\<close>

definition mask_and :: "bool list \<Rightarrow> bool list \<Rightarrow> bool list" where
  "mask_and m1 m2 = map (\<lambda>(a, b). a \<and> b) (zip m1 m2)"

text \<open>
  The sort key of \<^verbatim>\<open>sort_values(by=["Year", "Rating"], ascending=[False, False])\<close>. With
  several columns pandas sorts by a lexicographic, stable sort of per-column codes; for a
  descending column the codes are reversed, and a missing value gets the last code
  whatever the direction (\<^verbatim>\<open>na_position='last'\<close>).
\<close>

definition desc_key :: "'a::linordered_idom option \<Rightarrow> nat \<times> 'a" where
  "desc_key x = (case x of None \<Rightarrow> (1, 0) | Some v \<Rightarrow> (0, - v))"

definition row_key :: "movie \<Rightarrow> (nat \<times> int) \<times> (nat \<times> rat)" where
  "row_key m = (desc_key (Year m), desc_key (Rating m))"

section \<open>Tables as objects\<close>

text \<open>
  A table is an object: two variables may name the same one, and a method that wrote into
  its table would change it for every holder. The store maps addresses to tables;
  \<open>next_addr\<close> is the first address not yet in use. Every pandas operation of
  \<^verbatim>\<open>filter_movies\<close> (\<^verbatim>\<open>copy\<close>, indexing by a mask, \<^verbatim>\<open>sort_values\<close>) builds a new table.
\<close>

type_synonym addr = nat

record store =
  frames :: "addr \<Rightarrow> dataframe"
  next_addr :: addr

record MovieRecommender =
  df :: addr

definition new_frame :: "dataframe \<Rightarrow> store \<Rightarrow> addr \<times> store" where
  "new_frame d h =
     (next_addr h, h\<lparr>frames := (frames h)(next_addr h := d), next_addr := Suc (next_addr h)\<rparr>)"

definition df_copy :: "addr \<Rightarrow> store \<Rightarrow> addr \<times> store" where
  "df_copy a h = new_frame (frames h a) h"

definition getitem_mask :: "addr \<Rightarrow> bool list \<Rightarrow> store \<Rightarrow> addr \<times> store" where
  "getitem_mask a keep h = new_frame (map fst (filter snd (zip (frames h a) keep))) h"

definition sort_values :: "addr \<Rightarrow> store \<Rightarrow> addr \<times> store" where
  "sort_values a h = new_frame (sort_key row_key (frames h a)) h"

definition column :: "(movie \<Rightarrow> 'a) \<Rightarrow> addr \<Rightarrow> store \<Rightarrow> 'a list" where
  "column f a h = map f (frames h a)"

section \<open>MovieRecommender\<close>

text \<open>
  \<^verbatim>\<open>get_genres\<close>: the loop over the \<open>Genre\<close> column, then \<^verbatim>\<open>sorted\<close> of the set. A missing cell
  is a float, which has no \<^verbatim>\<open>split\<close>: the loop raises there.
\<close>

fun genres_loop :: "string option list \<Rightarrow> string set \<Rightarrow> error + string set" where
  "genres_loop [] genres = Inr genres"
| "genres_loop (g # gs) genres =
     (case g of
        None \<Rightarrow> Inl AttributeError
      | Some t \<Rightarrow>
          genres_loop gs (fold (\<lambda>genre acc. insert (strip genre) acc) (split t CHR '','') genres))"

definition get_genres :: "MovieRecommender \<Rightarrow> store \<Rightarrow> error + string list" where
  "get_genres self h =
     (case genres_loop (column Genre (df self) h) {} of
        Inl e \<Rightarrow> Inl e
      | Inr genres \<Rightarrow> Inr (sorted_list_of_set genres))"

text \<open>
  \<^verbatim>\<open>filter_movies\<close>, statement by statement, with the library \<open>lib\<close> that \<^verbatim>\<open>str.contains\<close>
  calls. The result is the address of the returned table, or the exception raised,
  together with the store as the call leaves it.
\<close>

definition filter_movies ::
  "re_library \<Rightarrow> MovieRecommender \<Rightarrow> string list \<Rightarrow> int \<Rightarrow> string \<Rightarrow> store \<Rightarrow>
     (error + addr) \<times> store"
where
  "filter_movies lib self genres rating search_query h0 =
     (let (data, h1) = df_copy (df self) h0;
          selected_genres = filter (\<lambda>g. g \<noteq> ''All'') genres
      in case (if selected_genres \<noteq> [] then
                 (let pattern = join ''|'' selected_genres
                  in case str_contains lib (column Genre data h1) pattern False of
                       Inl e \<Rightarrow> Inl e
                     | Inr keep \<Rightarrow> Inr (getitem_mask data keep h1))
               else Inr (data, h1)) of
           Inl e \<Rightarrow> (Inl e, h1)
         | Inr (data, h2) \<Rightarrow>
             (let (data, h3) =
                    (if rating > 0 then
                       getitem_mask data
                         (mask_and (col_ge (column Rating data h2) rating)
                                   (col_lt (column Rating data h2) (rating + 1))) h2
                     else (data, h2))
              in case (if search_query \<noteq> [] then
                         (case str_contains lib (col_str_lower (column Title data h3))
                                 (str_lower search_query) True of
                            Inl e \<Rightarrow> Inl e
                          | Inr keep \<Rightarrow> Inr (getitem_mask data keep h3))
                       else Inr (data, h3)) of
                   Inl e \<Rightarrow> (Inl e, h3)
                 | Inr (data, h4) \<Rightarrow>
                     (let (res, h5) = sort_values data h4 in (Inr res, h5))))"

text \<open>The rows of the returned table, or the exception.\<close>

definition returned :: "(error + addr) \<times> store \<Rightarrow> error + dataframe" where
  "returned out = (case fst out of Inl e \<Rightarrow> Inl e | Inr a \<Rightarrow> Inr (frames (snd out) a))"

section \<open>What a call computes\<close>

text \<open>
  The three conditions of \<^verbatim>\<open>filter_movies\<close> as conditions on one row. The genre and the
  search condition exist only if \<^verbatim>\<open>re.compile\<close> accepts their pattern; otherwise there is
  the exception it raised.
\<close>

definition selected_tags :: "string list \<Rightarrow> string list" where
  "selected_tags genres = filter (\<lambda>g. g \<noteq> ''All'') genres"

definition genre_keep :: "re_library \<Rightarrow> string list \<Rightarrow> error + (movie \<Rightarrow> bool)" where
  "genre_keep lib genres =
     (if selected_tags genres \<noteq> [] then
        (case re_compile lib (join ''|'' (selected_tags genres)) True of
           Inl e \<Rightarrow> Inl e
         | Inr search \<Rightarrow> Inr (\<lambda>m. case Genre m of None \<Rightarrow> False | Some s \<Rightarrow> search s))
      else Inr (\<lambda>m. True))"

definition rating_keep :: "int \<Rightarrow> movie \<Rightarrow> bool" where
  "rating_keep n m =
     (if n > 0 then
        (case Rating m of None \<Rightarrow> False | Some v \<Rightarrow> of_int n \<le> v \<and> v < of_int (n + 1))
      else True)"

definition title_keep :: "re_library \<Rightarrow> string \<Rightarrow> error + (movie \<Rightarrow> bool)" where
  "title_keep lib q =
     (if q \<noteq> [] then
        (case re_compile lib (str_lower q) False of
           Inl e \<Rightarrow> Inl e
         | Inr search \<Rightarrow> Inr (\<lambda>m. case Title m of None \<Rightarrow> False
                                       | Some s \<Rightarrow> search (str_lower s)))
      else Inr (\<lambda>m. True))"

definition filtered_rows ::
  "re_library \<Rightarrow> dataframe \<Rightarrow> string list \<Rightarrow> int \<Rightarrow> string \<Rightarrow> error + dataframe"
where
  "filtered_rows lib ds genres rating q =
     (case genre_keep lib genres of
        Inl e \<Rightarrow> Inl e
      | Inr gp \<Rightarrow>
          (case title_keep lib q of
             Inl e \<Rightarrow> Inl e
           | Inr tp \<Rightarrow>
               Inr (sort_key row_key (filter tp (filter (rating_keep rating) (filter gp ds))))))"

section \<open>The vocabulary of the specification\<close>

text \<open>A string without any character that is special in a regular expression.\<close>

definition plain :: "string \<Rightarrow> bool" where
  "plain s \<longleftrightarrow> (\<forall>c \<in> set s. c \<notin> set special_chars)"

text \<open>\<^verbatim>\<open>re.compile(pat, flags)\<close> returns a compiled pattern: it raises nothing.\<close>

definition compiles :: "re_library \<Rightarrow> string \<Rightarrow> bool \<Rightarrow> bool" where
  "compiles lib pat ignorecase =
     (case re_compile lib pat ignorecase of Inl e \<Rightarrow> False | Inr search \<Rightarrow> True)"

definition literal :: "string \<Rightarrow> regex" where
  "literal s = mk_seq (map Lit s)"

definition fold_case :: "bool \<Rightarrow> string \<Rightarrow> string" where
  "fold_case ic s = (if ic then str_lower s else s)"

text \<open>\<open>t\<close> occurs in \<open>s\<close> as a contiguous piece, letter case ignored.\<close>

definition ci_substring :: "string \<Rightarrow> string \<Rightarrow> bool" where
  "ci_substring t s \<longleftrightarrow> sublist (str_lower t) (str_lower s)"

definition genre_matches :: "string list \<Rightarrow> movie \<Rightarrow> bool" where
  "genre_matches genres m \<longleftrightarrow>
     (case Genre m of
        None \<Rightarrow> False
      | Some s \<Rightarrow> \<exists>g \<in> set genres. g \<noteq> ''All'' \<and> ci_substring g s)"

definition title_matches :: "string \<Rightarrow> movie \<Rightarrow> bool" where
  "title_matches q m \<longleftrightarrow> (case Title m of None \<Rightarrow> False | Some s \<Rightarrow> ci_substring q s)"

text \<open>The rating band \<open>[r, r + 1)\<close>.\<close>

definition in_band :: "int \<Rightarrow> movie \<Rightarrow> bool" where
  "in_band r m \<longleftrightarrow>
     (case Rating m of None \<Rightarrow> False | Some v \<Rightarrow> of_int r \<le> v \<and> v < of_int r + 1)"

definition keep_rows :: "(movie \<Rightarrow> bool) \<Rightarrow> error + dataframe \<Rightarrow> error + dataframe" where
  "keep_rows P res = (case res of Inl e \<Rightarrow> Inl e | Inr rows \<Rightarrow> Inr (filter P rows))"

text \<open>
  \<open>x\<close> comes strictly before \<open>y\<close> in a descending column; a missing value comes after
  every value.
\<close>

fun before_desc :: "'a::linorder option \<Rightarrow> 'a option \<Rightarrow> bool" where
  "before_desc (Some x) (Some y) \<longleftrightarrow> y < x"
| "before_desc (Some x) None \<longleftrightarrow> True"
| "before_desc None y \<longleftrightarrow> False"

definition year_rating_desc :: "movie \<Rightarrow> movie \<Rightarrow> bool" where
  "year_rating_desc a b \<longleftrightarrow>
     before_desc (Year a) (Year b) \<or>
     (Year a = Year b \<and> (before_desc (Rating a) (Rating b) \<or> Rating a = Rating b))"

text \<open>The trimmed tags of every row of a table.\<close>

definition row_tags :: "string option \<Rightarrow> string set" where
  "row_tags g = (case g of None \<Rightarrow> {} | Some t \<Rightarrow> strip ` set (split t CHR '',''))"

definition all_tags :: "dataframe \<Rightarrow> string set" where
  "all_tags ds = (\<Union>m \<in> set ds. row_tags (Genre m))"

section \<open>Example tables\<close>

text \<open>A recommender just built: its table is the only one in the store.\<close>

definition recommender0 :: MovieRecommender where
  "recommender0 = \<lparr>df = 0\<rparr>"

definition one_table :: "dataframe \<Rightarrow> store" where
  "one_table ds = \<lparr>frames = (\<lambda>a. if a = 0 then ds else []), next_addr = 1\<rparr>"

definition row :: "string \<Rightarrow> string \<Rightarrow> rat \<Rightarrow> int \<Rightarrow> movie" where
  "row t g r y =
     \<lparr>Title = Some t, Genre = Some g, Rating = Some r, Year = Some y,
      Runtime = None, Director = None, Description = None\<rparr>"

definition blank_row :: movie where
  "blank_row =
     \<lparr>Title = None, Genre = None, Rating = None, Year = None,
      Runtime = None, Director = None, Description = None\<rparr>"

text \<open>
  A library for the concrete examples. It knows one pattern outside the modelled syntax,
  \<^verbatim>\<open>what?\<close> (the \<^verbatim>\<open>t\<close> is optional, so a match is an occurrence of \<^verbatim>\<open>wha\<close>); the examples ask it
  no other.
\<close>

definition sample_library :: re_library where
  "sample_library ignorecase pat =
     (if pat = ''what?'' then
        Inr (\<lambda>s. sublist ''wha'' (if ignorecase then str_lower s else s))
      else Inl (OtherException ''not in the sample''))"

text \<open>Rows used as concrete inputs.\<close>

definition m2010 :: movie where
  "m2010 = row ''Inception'' ''Action, Sci-Fi'' 8 2010"

definition m2015 :: movie where
  "m2015 = row ''Pixels'' ''Action, Comedy'' 5 2015"

definition rated79 :: movie where
  "rated79 = row ''Los Angeles'' ''Drama'' (79 / 10) 2001"

definition rated80 :: movie where
  "rated80 = row ''Madrid'' ''Drama'' 8 2002"

definition rated69 :: movie where
  "rated69 = row ''Nairobi'' ''Crime'' (69 / 10) 2003"

definition batman :: movie where
  "batman = row ''Batman Begins'' ''Action'' (82 / 10) 2005"

definition summer :: movie where
  "summer = row ''(500) Days of Summer'' ''Comedy, Drama'' (77 / 10) 2009"

definition walle :: movie where
  "walle = row ''WALL-E'' ''Animation'' (84 / 10) 2008"

definition whatever :: movie where
  "whatever = row ''Whatever Works'' ''Comedy'' (72 / 10) 2009"

definition whale :: movie where
  "whale = row ''Whale Rider'' ''Drama'' (75 / 10) 2002"

definition no_genre :: movie where
  "no_genre = blank_row\<lparr>Title := Some ''Untitled'', Year := Some 1999\<rparr>"

section \<open>Lemmas on the pandas operations\<close>

lemma mask_select: "map fst (filter snd (zip xs (map P xs))) = filter P xs"
  by (induction xs) auto

lemma str_contains_column:
  "str_contains lib (map f rows) pat cs =
     (case re_compile lib pat (\<not> cs) of
        Inl e \<Rightarrow> Inl e
      | Inr search \<Rightarrow> Inr (map (\<lambda>m. case f m of None \<Rightarrow> False | Some s \<Rightarrow> search s) rows))"
  by (simp add: str_contains_def comp_def split: sum.splits)

lemma str_contains_lower_column:
  "str_contains lib (col_str_lower (map f rows)) pat cs =
     (case re_compile lib pat (\<not> cs) of
        Inl e \<Rightarrow> Inl e
      | Inr search \<Rightarrow>
          Inr (map (\<lambda>m. case f m of None \<Rightarrow> False | Some s \<Rightarrow> search (str_lower s)) rows))"
  by (auto simp: str_contains_def col_str_lower_def split: sum.splits option.splits)

lemma rating_mask_column:
  "mask_and (col_ge (map f rows) n) (col_lt (map f rows) k) =
     map (\<lambda>m. case f m of None \<Rightarrow> False | Some v \<Rightarrow> of_int n \<le> v \<and> v < of_int k) rows"
  by (induction rows) (auto simp: mask_and_def col_ge_def col_lt_def split: option.splits)

text \<open>The returned rows depend on the rows of \<^verbatim>\<open>self.df\<close> only.\<close>

lemma returned_filter_movies:
  "returned (filter_movies lib self genres rating q h) =
     filtered_rows lib (frames h (df self)) genres rating q"
  unfolding returned_def filter_movies_def filtered_rows_def genre_keep_def title_keep_def
    df_copy_def getitem_mask_def sort_values_def new_frame_def column_def rating_keep_def
    selected_tags_def
  by (simp add: Let_def mask_select str_contains_column str_contains_lower_column
      rating_mask_column split: sum.splits prod.splits cong: option.case_cong)

text \<open>A call only adds tables to the store.\<close>

lemma filter_movies_store:
  assumes "filter_movies lib self genres rating q h = (res, h')"
  shows "(\<forall>a < next_addr h. frames h' a = frames h a) \<and> next_addr h < next_addr h'
         \<and> (\<forall>a. res = Inr a \<longrightarrow> next_addr h \<le> a \<and> a < next_addr h')"
  using assms
  unfolding filter_movies_def df_copy_def getitem_mask_def sort_values_def new_frame_def
  by (auto simp: Let_def split: sum.splits prod.splits if_splits)

section \<open>Lemmas on patterns without special characters\<close>

lemma parse_plain:
  "plain p \<Longrightarrow> parse (p @ rest) stack alts cur = parse rest stack alts (rev (map Lit p) @ cur)"
  by (induction p arbitrary: cur) (auto simp: plain_def special_chars_def)

text \<open>Inside the modelled syntax the library is not asked.\<close>

lemma re_compile_modelled:
  "parse pat [] [] [] \<noteq> Outside \<Longrightarrow> re_compile lib pat ic = re_compile lib' pat ic"
  by (simp add: re_compile_def split: parsed.splits)

lemma parse_join_plain:
  "\<forall>t \<in> set (t # ts). plain t \<Longrightarrow>
   parse (join ''|'' (t # ts)) [] alts [] = Parsed (mk_alt (rev alts @ map literal (t # ts)))"
proof (induction ts arbitrary: t alts)
  case Nil
  then show ?case
    using parse_plain [of t "[]" "[]" alts "[]"] by (simp add: close_group_def literal_def)
next
  case (Cons u us)
  have "parse (join ''|'' (t # u # us)) [] alts [] =
        parse (CHR ''|'' # join ''|'' (u # us)) [] alts (rev (map Lit t))"
    using Cons.prems parse_plain [of t "''|'' @ join ''|'' (u # us)" "[]" alts "[]"] by simp
  also have "\<dots> = parse (join ''|'' (u # us)) [] (literal t # alts) []"
    by (simp add: literal_def)
  also have "\<dots> = Parsed (mk_alt (rev (literal t # alts) @ map literal (u # us)))"
    using Cons.prems by (intro Cons.IH) simp
  finally show ?case by simp
qed

lemma re_compile_plain:
  "plain p \<Longrightarrow> re_compile lib p ic = Inr (re_search ic (literal p))"
  using parse_join_plain [of p "[]" "[]"] by (simp add: re_compile_def)

lemma re_compile_join_plain:
  "ts \<noteq> [] \<Longrightarrow> \<forall>t \<in> set ts. plain t \<Longrightarrow>
   re_compile lib (join ''|'' ts) ic = Inr (re_search ic (mk_alt (map literal ts)))"
  using parse_join_plain [of "hd ts" "tl ts" "[]"] by (cases ts) (simp_all add: re_compile_def)

lemma rmatch_literal:
  "rmatch ic (literal p) s \<noteq> [] \<longleftrightarrow> prefix (fold_case ic p) (fold_case ic s)"
proof (induction p arbitrary: s)
  case Nil
  then show ?case by (simp add: literal_def fold_case_def str_lower_def)
next
  case (Cons c p)
  show ?case
  proof (cases s)
    case Nil
    then show ?thesis by (simp add: literal_def fold_case_def str_lower_def)
  next
    case (Cons d t)
    then show ?thesis
      using Cons.IH [of t]
      by (auto simp: literal_def fold_case_def str_lower_def char_eq_def)
  qed
qed

lemma rmatch_mk_alt:
  "rs \<noteq> [] \<Longrightarrow> rmatch ic (mk_alt rs) s \<noteq> [] \<longleftrightarrow> (\<exists>r \<in> set rs. rmatch ic r s \<noteq> [])"
  by (induction rs rule: mk_alt.induct) auto

lemma re_search_mk_alt:
  "rs \<noteq> [] \<Longrightarrow> re_search ic (mk_alt rs) s \<longleftrightarrow> (\<exists>r \<in> set rs. re_search ic r s)"
  by (induction s) (auto simp: rmatch_mk_alt)

lemma re_search_literal:
  "re_search ic (literal p) s \<longleftrightarrow> sublist (fold_case ic p) (fold_case ic s)"
proof (induction s)
  case Nil
  then show ?case by (simp add: rmatch_literal fold_case_def str_lower_def)
next
  case (Cons c s)
  then show ?case
    by (auto simp: rmatch_literal sublist_Cons_right fold_case_def str_lower_def)
qed

lemma lower_char_cases:
  "lower_char c = c \<or> lower_char c \<in> set ''abcdefghijklmnopqrstuvwxyz''"
proof (cases "map_of (zip ''ABCDEFGHIJKLMNOPQRSTUVWXYZ'' ''abcdefghijklmnopqrstuvwxyz'') c")
  case None
  then show ?thesis by (simp add: lower_char_def)
next
  case (Some d)
  then have "(c, d) \<in> set (zip ''ABCDEFGHIJKLMNOPQRSTUVWXYZ'' ''abcdefghijklmnopqrstuvwxyz'')"
    by (rule map_of_SomeD)
  then have "d \<in> set ''abcdefghijklmnopqrstuvwxyz''"
    by (rule set_zip_rightD)
  with Some show ?thesis by (simp add: lower_char_def)
qed

lemma plain_str_lower: "plain q \<Longrightarrow> plain (str_lower q)"
  unfolding plain_def str_lower_def
proof
  fix d assume q: "\<forall>c\<in>set q. c \<notin> set special_chars" and "d \<in> set (map lower_char q)"
  then obtain c where c: "c \<in> set q" "d = lower_char c" by auto
  from lower_char_cases [of c] show "d \<notin> set special_chars"
  proof
    assume "lower_char c = c" with q c show ?thesis by simp
  next
    assume "lower_char c \<in> set ''abcdefghijklmnopqrstuvwxyz''"
    with c show ?thesis by (auto simp: special_chars_def unsupported_chars_def)
  qed
qed

lemma genre_keep_plain:
  assumes "\<forall>g \<in> set genres. g \<noteq> ''All'' \<longrightarrow> plain g"
  shows "genre_keep lib genres =
           Inr (if \<exists>g \<in> set genres. g \<noteq> ''All'' then genre_matches genres else (\<lambda>m. True))"
proof (cases "selected_tags genres = []")
  case True
  then have "\<not> (\<exists>g \<in> set genres. g \<noteq> ''All'')"
    by (simp add: selected_tags_def filter_empty_conv)
  with True show ?thesis by (simp add: genre_keep_def)
next
  case False
  let ?sel = "selected_tags genres"
  from False have ex: "\<exists>g \<in> set genres. g \<noteq> ''All''"
    by (simp add: selected_tags_def filter_empty_conv)
  from assms have "\<forall>t \<in> set ?sel. plain t" by (simp add: selected_tags_def)
  with False have c:
    "re_compile lib (join ''|'' ?sel) True = Inr (re_search True (mk_alt (map literal ?sel)))"
    by (rule re_compile_join_plain)
  have "(case Genre m of None \<Rightarrow> False | Some s \<Rightarrow> re_search True (mk_alt (map literal ?sel)) s)
          = genre_matches genres m" for m
    using False
    by (auto simp: genre_matches_def ci_substring_def re_search_mk_alt re_search_literal
        fold_case_def selected_tags_def split: option.splits)
  with c False ex show ?thesis by (simp add: genre_keep_def)
qed

lemma title_keep_plain:
  assumes "plain q"
  shows "title_keep lib q = Inr (if q \<noteq> [] then title_matches q else (\<lambda>m. True))"
proof (cases "q = []")
  case True
  then show ?thesis by (simp add: title_keep_def)
next
  case False
  from assms have c:
    "re_compile lib (str_lower q) False = Inr (re_search False (literal (str_lower q)))"
    by (intro re_compile_plain plain_str_lower)
  have "(case Title m of None \<Rightarrow> False
         | Some s \<Rightarrow> re_search False (literal (str_lower q)) (str_lower s)) = title_matches q m" for m
    by (auto simp: title_matches_def ci_substring_def re_search_literal fold_case_def
        split: option.splits)
  with c False show ?thesis by (simp add: title_keep_def)
qed

section \<open>Lemmas on the result of a call\<close>

lemma keep_rows_simps:
  "keep_rows P (Inl e) = Inl e"
  "keep_rows P (Inr (sort_key row_key (filter Q xs))) =
     Inr (sort_key row_key (filter (\<lambda>m. Q m \<and> P m) xs))"
  by (simp_all add: keep_rows_def filter_sort)

lemma filtered_rows_conj:
  "filtered_rows lib ds genres rating q =
     (case genre_keep lib genres of
        Inl e \<Rightarrow> Inl e
      | Inr gp \<Rightarrow>
          (case title_keep lib q of
             Inl e \<Rightarrow> Inl e
           | Inr tp \<Rightarrow>
               Inr (sort_key row_key
                      (filter (\<lambda>m. gp m \<and> rating_keep rating m \<and> tp m) ds))))"
  by (simp add: filtered_rows_def conj_ac split: sum.splits)

lemma genre_keep_Nil: "genre_keep lib [] = Inr (\<lambda>m. True)"
  by (simp add: genre_keep_def selected_tags_def)

lemma genre_keep_All:
  "\<forall>g \<in> set genres. g = ''All'' \<Longrightarrow> genre_keep lib genres = Inr (\<lambda>m. True)"
  by (simp add: genre_keep_def selected_tags_def filter_empty_conv)

lemma title_keep_Nil: "title_keep lib [] = Inr (\<lambda>m. True)"
  by (simp add: title_keep_def)

lemma rating_keep_nonpos: "rating \<le> 0 \<Longrightarrow> rating_keep rating m"
  by (simp add: rating_keep_def)

lemma rating_keep_pos: "0 < rating \<Longrightarrow> rating_keep rating m = in_band rating m"
  by (cases "Rating m") (simp_all add: rating_keep_def in_band_def)

lemma unrestricted_rows:
  assumes "\<forall>g \<in> set genres. g = ''All''" and "rating \<le> 0"
  shows "filtered_rows lib ds genres rating [] = Inr (sort_key row_key ds)"
  using assms by (simp add: filtered_rows_def genre_keep_All title_keep_Nil rating_keep_nonpos)

lemma plain_compiles: "plain p \<Longrightarrow> compiles lib p ic"
  by (simp add: compiles_def re_compile_plain)

text \<open>
  The whole call on criteria without special characters: the rows that pass the three
  literal tests, sorted.
\<close>

lemma filter_movies_plain_inputs:
  assumes "\<forall>g \<in> set genres. g \<noteq> ''All'' \<longrightarrow> plain g" and "plain q"
  shows "returned (filter_movies lib self genres rating q h) =
           Inr (sort_key row_key
                  (filter (\<lambda>m. ((\<forall>g \<in> set genres. g = ''All'') \<or> genre_matches genres m) \<and>
                               (rating \<le> 0 \<or> in_band rating m) \<and>
                               (q = [] \<or> title_matches q m))
                     (frames h (df self))))"
proof -
  have "rating_keep rating m \<longleftrightarrow> rating \<le> 0 \<or> in_band rating m" for m
    using rating_keep_pos [of rating m] rating_keep_nonpos [of rating m] by (cases "0 < rating") auto
  then show ?thesis
    by (auto simp: returned_filter_movies filtered_rows_conj genre_keep_plain [OF assms(1)]
        title_keep_plain [OF assms(2)] intro!: arg_cong [where f = "sort_key row_key"] filter_cong)
qed

section \<open>Lemmas on the sort order\<close>

lemma desc_key_le:
  "desc_key x \<le> desc_key y \<longleftrightarrow> before_desc x y \<or> x = y"
  by (cases x; cases y) (auto simp: desc_key_def)

lemma desc_key_less:
  "desc_key x < desc_key y \<longleftrightarrow> before_desc x y"
  by (cases x; cases y) (auto simp: desc_key_def)

lemma desc_key_eq: "desc_key x = desc_key y \<longleftrightarrow> x = y"
  by (cases x; cases y) (auto simp: desc_key_def)

lemma before_desc_irrefl: "\<not> before_desc x x"
  by (cases x) auto

lemma row_key_le: "row_key a \<le> row_key b \<longleftrightarrow> year_rating_desc a b"
  by (auto simp: row_key_def year_rating_desc_def desc_key_le desc_key_less desc_key_eq
      before_desc_irrefl)

lemma row_key_eq: "row_key m = (desc_key y, desc_key r) \<longleftrightarrow> Year m = y \<and> Rating m = r"
  by (simp add: row_key_def desc_key_eq)

lemma filtered_rows_sorted:
  assumes "filtered_rows lib ds genres rating q = Inr out"
  obtains P where "out = sort_key row_key (filter P ds)"
  using assms unfolding filtered_rows_def
  by (auto split: sum.splits)

section \<open>Lemmas on repeated calls and on \<^verbatim>\<open>get_genres\<close>\<close>

lemma filtered_rows_again:
  assumes "filtered_rows lib ds genres rating q = Inr out"
  shows "filtered_rows lib out genres rating q = Inr out"
proof -
  from assms obtain gp tp where g: "genre_keep lib genres = Inr gp" and t: "title_keep lib q = Inr tp"
    by (auto simp: filtered_rows_def split: sum.splits)
  define P where "P = (\<lambda>m. gp m \<and> rating_keep rating m \<and> tp m)"
  from assms g t have out: "out = sort_key row_key (filter P ds)"
    by (simp add: filtered_rows_conj P_def)
  have "filter P out = out"
    unfolding out by (simp add: filter_sort)
  moreover have "sort_key row_key out = out"
    unfolding out by (rule sort_key_id_if_sorted) (rule sorted_sort_key)
  ultimately show ?thesis
    using g t by (simp add: filtered_rows_conj P_def [symmetric])
qed

lemma genres_loop_missing:
  "None \<in> set col \<Longrightarrow> genres_loop col acc = Inl AttributeError"
  by (induction col arbitrary: acc) (auto split: option.splits)

lemma fold_insert_image:
  "fold (\<lambda>x acc. insert (f x) acc) xs acc = acc \<union> f ` set xs"
  by (induction xs arbitrary: acc) auto

lemma genres_loop_present:
  "None \<notin> set col \<Longrightarrow> genres_loop col acc = Inr (acc \<union> (\<Union>g \<in> set col. row_tags g))"
proof (induction col arbitrary: acc)
  case Nil
  then show ?case by simp
next
  case (Cons g col)
  then obtain t where g: "g = Some t" by (cases g) auto
  from Cons have "None \<notin> set col" by simp
  with Cons.IH g show ?case
    by (simp add: fold_insert_image row_tags_def Un_assoc)
qed

lemma finite_all_tags: "finite (all_tags ds)"
  by (auto simp: all_tags_def row_tags_def split: option.splits)

text \<open>
  On a table without a missing \<open>Genre\<close> cell \<^verbatim>\<open>get_genres\<close> returns the trimmed tags of all
  rows, each once, in the order of Python's string comparison (by character code, so
  every upper-case letter comes before every lower-case one).
\<close>

lemma get_genres_present:
  assumes "\<forall>m \<in> set (frames h (df self)). Genre m \<noteq> None"
  shows "\<exists>tags. get_genres self h = Inr tags \<and> sorted tags \<and> distinct tags \<and>
           set tags = all_tags (frames h (df self))"
proof -
  from assms have "None \<notin> set (column Genre (df self) h)"
    by (auto simp: column_def)
  then have "genres_loop (column Genre (df self) h) {} = Inr (all_tags (frames h (df self)))"
    by (simp add: genres_loop_present all_tags_def column_def)
  then show ?thesis
    by (simp add: get_genres_def finite_all_tags)
qed

lemma get_genres_case_sensitive:
  "get_genres recommender0
     (one_table [row ''A'' ''Action, Comedy'' 7 2000, row ''B'' ''comedy, Drama'' 6 2001])
   = Inr [''Action'', ''Comedy'', ''Drama'', ''comedy'']"
  by code_simp

section \<open>The claims\<close>

text \<open>
  C1. Whatever the table, the criteria and the answers of the library, the rows that
  \<^verbatim>\<open>filter_movies\<close> returns are in descending order of \<open>Year\<close> and, among rows of one year, in
  descending order of \<open>Rating\<close> (a missing year or rating counts as the smallest, as pandas
  puts it last); and the sort is stable: the returned rows of one year and one rating are
  in the order they had in the table of the recommender. (The witness has a call without
  criteria and a call with the search text \<^verbatim>\<open>what?\<close>, which is no pattern of the modelled
  syntax.)
\<close>

theorem filter_movies_sorted_stable:
  assumes "returned (filter_movies lib self genres rating q h) = Inr out"
  shows "sorted_wrt year_rating_desc out \<and>
         (\<forall>y r. subseq (filter (\<lambda>m. Year m = y \<and> Rating m = r) out) (frames h (df self)))"
proof -
  from assms obtain P where out: "out = sort_key row_key (filter P (frames h (df self)))"
    by (auto simp: returned_filter_movies elim: filtered_rows_sorted)
  have "sorted (map row_key out)"
    unfolding out by (rule sorted_sort_key)
  then have "sorted_wrt (\<lambda>a b. row_key a \<le> row_key b) out"
    by (simp add: sorted_map)
  then have s: "sorted_wrt year_rating_desc out"
    by (simp add: row_key_le [abs_def])
  have "subseq (filter (\<lambda>m. Year m = y \<and> Rating m = r) out) (frames h (df self))" for y r
  proof -
    have "filter (\<lambda>m. Year m = y \<and> Rating m = r) out
            = filter (\<lambda>m. row_key m = (desc_key y, desc_key r)) out"
      by (simp add: row_key_eq)
    also have "\<dots> = filter (\<lambda>m. row_key m = (desc_key y, desc_key r)) (filter P (frames h (df self)))"
      unfolding out by (rule sort_key_stable)
    finally show ?thesis by simp
  qed
  with s show ?thesis by simp
qed

theorem filter_movies_sorted_stable_witness:
  "returned (filter_movies sample_library recommender0 [] (- 1) [] (one_table [m2010, m2015]))
     = Inr [m2015, m2010] \<and>
   sorted_wrt year_rating_desc [m2015, m2010] \<and>
   returned (filter_movies sample_library recommender0 [] (- 1) ''what?''
      (one_table [whale, batman, whatever])) = Inr [whatever, whale] \<and>
   sorted_wrt year_rating_desc [whatever, whale]"
proof -
  have h: "returned (filter_movies sample_library recommender0 [] (- 1) []
             (one_table [m2010, m2015])) = Inr [m2015, m2010]"
    by code_simp
  have k: "returned (filter_movies sample_library recommender0 [] (- 1) ''what?''
             (one_table [whale, batman, whatever])) = Inr [whatever, whale]"
    by code_simp
  from filter_movies_sorted_stable [OF h] filter_movies_sorted_stable [OF k] h k
  show ?thesis by simp
qed

text \<open>
  C2, as the program has it. \<^verbatim>\<open>filter_movies\<close> joins the selected tags other than \<^verbatim>\<open>"All"\<close> with
  \<^verbatim>\<open>|\<close> and uses the result as a regular expression. If none of these tags contains a
  character that is special in a regular expression, then: when there is such a tag, the
  call returns exactly the rows, of those it returns without a genre selection, whose
  \<open>Genre\<close> contains one of these tags as a substring, letter case ignored (a missing
  \<open>Genre\<close> never matches); when the selection is empty or holds only \<^verbatim>\<open>"All"\<close>, the call
  returns what it returns without a genre selection, which is every row of the table if
  there is no rating and no text restriction either.
\<close>

theorem genre_step_plain:
  assumes "\<forall>g \<in> set genres. g \<noteq> ''All'' \<longrightarrow> plain g"
  shows "((\<exists>g \<in> set genres. g \<noteq> ''All'') \<longrightarrow>
            returned (filter_movies lib self genres rating q h) =
              keep_rows (genre_matches genres) (returned (filter_movies lib self [] rating q h))) \<and>
         ((\<forall>g \<in> set genres. g = ''All'') \<longrightarrow>
            returned (filter_movies lib self genres rating q h) =
              returned (filter_movies lib self [] rating q h)) \<and>
         ((\<forall>g \<in> set genres. g = ''All'') \<longrightarrow> rating \<le> 0 \<longrightarrow>
            (\<exists>out. returned (filter_movies lib self genres rating [] h) = Inr out \<and>
                   mset out = mset (frames h (df self))))"
proof (intro conjI impI)
  assume "\<exists>g \<in> set genres. g \<noteq> ''All''"
  then show "returned (filter_movies lib self genres rating q h) =
              keep_rows (genre_matches genres) (returned (filter_movies lib self [] rating q h))"
    by (simp add: returned_filter_movies keep_rows_simps filtered_rows_conj
        genre_keep_plain [OF assms] genre_keep_Nil conj_commute conj_left_commute
        split: sum.splits)
next
  assume "\<forall>g \<in> set genres. g = ''All''"
  then show "returned (filter_movies lib self genres rating q h) =
              returned (filter_movies lib self [] rating q h)"
    by (simp add: returned_filter_movies filtered_rows_conj genre_keep_All genre_keep_Nil)
next
  assume "\<forall>g \<in> set genres. g = ''All''" and "rating \<le> 0"
  then show "\<exists>out. returned (filter_movies lib self genres rating [] h) = Inr out \<and>
                   mset out = mset (frames h (df self))"
    by (simp add: returned_filter_movies unrestricted_rows)
qed

theorem genre_step_plain_witness:
  "plain ''comedy'' \<and>
   returned (filter_movies sample_library recommender0 [''All'', ''comedy''] 0 [] (one_table [m2010, m2015, no_genre]))
     = Inr [m2015] \<and>
   returned (filter_movies sample_library recommender0 [''All''] 0 [] (one_table [m2010, m2015, no_genre]))
     = Inr [m2015, m2010, no_genre]"
proof -
  have p: "plain ''comedy''"
    by (simp add: plain_def special_chars_def unsupported_chars_def)
  then have h: "\<forall>g \<in> set [''All'', ''comedy'']. g \<noteq> ''All'' \<longrightarrow> plain g"
    by simp
  have k: "keep_rows (genre_matches [''All'', ''comedy''])
             (returned (filter_movies sample_library recommender0 [] 0 [] (one_table [m2010, m2015, no_genre])))
           = Inr [m2015]"
    by code_simp
  have z: "returned (filter_movies sample_library recommender0 [] 0 [] (one_table [m2010, m2015, no_genre]))
     = Inr [m2015, m2010, no_genre]"
    by code_simp
  from genre_step_plain [OF h, where lib = sample_library and self = recommender0
        and rating = 0 and q = "[]" and h = "one_table [m2010, m2015, no_genre]"]
    genre_step_plain [where genres = "[''All'']" and lib = sample_library
        and self = recommender0 and rating = 0 and q = "[]"
        and h = "one_table [m2010, m2015, no_genre]"]
  show ?thesis using p k z by simp
qed

text \<open>
  The claim without the restriction on the tags fails: the tag \<^verbatim>\<open>Sci.Fi\<close> keeps a row whose
  \<open>Genre\<close> is \<^verbatim>\<open>Action, Sci-Fi\<close>, which does not contain it.
\<close>

theorem genre_step_counterexample:
  "returned (filter_movies sample_library recommender0 [''Sci.Fi''] 0 [] (one_table [m2010, m2015])) = Inr [m2010] \<and>
   \<not> genre_matches [''Sci.Fi''] m2010"
  by code_simp

text \<open>
  C3. For a threshold \<open>rating > 0\<close>, \<^verbatim>\<open>filter_movies\<close> returns exactly the rows, of those it
  returns without a rating restriction, whose \<open>Rating\<close> is in \<open>[rating, rating + 1)\<close>; for
  \<open>rating \<le> 0\<close> it returns what it returns for the threshold \<open>0\<close>, which is every row of the
  table if there is no genre and no text restriction either. (The witness is the case of
  the specification: with the threshold 7, the row rated 7.9 is kept and the rows rated
  8.0 and 6.9 are not.)
\<close>

theorem rating_step_band:
  "(0 < rating \<longrightarrow>
      returned (filter_movies lib self genres rating q h) =
        keep_rows (in_band rating) (returned (filter_movies lib self genres 0 q h))) \<and>
   (rating \<le> 0 \<longrightarrow>
      returned (filter_movies lib self genres rating q h) =
        returned (filter_movies lib self genres 0 q h)) \<and>
   (rating \<le> 0 \<longrightarrow>
      (\<exists>out. returned (filter_movies lib self [] rating [] h) = Inr out \<and>
             mset out = mset (frames h (df self))))"
proof (intro conjI impI)
  assume "0 < rating"
  then show "returned (filter_movies lib self genres rating q h) =
        keep_rows (in_band rating) (returned (filter_movies lib self genres 0 q h))"
    by (simp add: returned_filter_movies keep_rows_simps filtered_rows_conj
        rating_keep_pos rating_keep_nonpos conj_commute conj_left_commute split: sum.splits)
next
  assume "rating \<le> 0"
  then show "returned (filter_movies lib self genres rating q h) =
        returned (filter_movies lib self genres 0 q h)"
    by (simp add: returned_filter_movies filtered_rows_conj rating_keep_nonpos split: sum.splits)
next
  assume "rating \<le> 0"
  then show "\<exists>out. returned (filter_movies lib self [] rating [] h) = Inr out \<and>
             mset out = mset (frames h (df self))"
    by (simp add: returned_filter_movies unrestricted_rows)
qed

theorem rating_step_band_witness:
  "returned (filter_movies sample_library recommender0 [] 7 [] (one_table [rated79, rated80, rated69]))
     = Inr [rated79] \<and>
   keep_rows (in_band 7)
     (returned (filter_movies sample_library recommender0 [] 0 [] (one_table [rated79, rated80, rated69])))
     = Inr [rated79] \<and>
   returned (filter_movies sample_library recommender0 [] (- 1) [] (one_table [rated79, rated80, rated69]))
     = Inr [rated69, rated80, rated79]"
proof -
  have k: "keep_rows (in_band 7)
     (returned (filter_movies sample_library recommender0 [] 0 [] (one_table [rated79, rated80, rated69])))
     = Inr [rated79]"
    by code_simp
  have z: "returned (filter_movies sample_library recommender0 [] 0 [] (one_table [rated79, rated80, rated69]))
     = Inr [rated69, rated80, rated79]"
    by code_simp
  from rating_step_band [where rating = 7 and lib = sample_library and self = recommender0
        and genres = "[]" and q = "[]" and h = "one_table [rated79, rated80, rated69]"]
    rating_step_band [where rating = "- 1" and lib = sample_library and self = recommender0
        and genres = "[]" and q = "[]" and h = "one_table [rated79, rated80, rated69]"]
  show ?thesis using k z by simp
qed

text \<open>
  C4, as the program has it. \<^verbatim>\<open>filter_movies\<close> uses the lower-cased search text as a regular
  expression on the lower-cased titles. If the search text contains no character that is
  special in a regular expression, then: when it is not empty, the call returns exactly
  the rows, of those it returns for the empty search text, whose \<open>Title\<close> contains it as a
  substring, letter case ignored (a missing \<open>Title\<close> never matches); when it is empty and
  there is no genre and no rating restriction, the call returns every row of the table.
  (The witness: \<^verbatim>\<open>batman\<close> finds \<^verbatim>\<open>Batman Begins\<close>.)
\<close>

theorem text_step_plain:
  assumes "plain q"
  shows "(q \<noteq> [] \<longrightarrow>
            returned (filter_movies lib self genres rating q h) =
              keep_rows (title_matches q) (returned (filter_movies lib self genres rating [] h))) \<and>
         (q = [] \<longrightarrow> (\<forall>g \<in> set genres. g = ''All'') \<longrightarrow> rating \<le> 0 \<longrightarrow>
            (\<exists>out. returned (filter_movies lib self genres rating q h) = Inr out \<and>
                   mset out = mset (frames h (df self))))"
proof (intro conjI impI)
  assume "q \<noteq> []"
  then show "returned (filter_movies lib self genres rating q h) =
              keep_rows (title_matches q) (returned (filter_movies lib self genres rating [] h))"
    by (simp add: returned_filter_movies keep_rows_simps filtered_rows_conj
        title_keep_plain [OF assms] title_keep_Nil conj_commute conj_left_commute
        split: sum.splits)
next
  assume "q = []" and "\<forall>g \<in> set genres. g = ''All''" and "rating \<le> 0"
  then show "\<exists>out. returned (filter_movies lib self genres rating q h) = Inr out \<and>
                   mset out = mset (frames h (df self))"
    by (simp add: returned_filter_movies unrestricted_rows)
qed

theorem text_step_plain_witness:
  "plain ''batman'' \<and>
   returned (filter_movies sample_library recommender0 [] (- 1) ''batman'' (one_table [walle, batman, no_genre]))
     = Inr [batman]"
proof -
  have p: "plain ''batman''"
    by (simp add: plain_def special_chars_def unsupported_chars_def)
  have k: "keep_rows (title_matches ''batman'')
             (returned (filter_movies sample_library recommender0 [] (- 1) [] (one_table [walle, batman, no_genre])))
           = Inr [batman]"
    by code_simp
  from text_step_plain [OF p, where lib = sample_library and self = recommender0
        and genres = "[]" and rating = "- 1" and h = "one_table [walle, batman, no_genre]"]
  show ?thesis using p k by simp
qed

text \<open>
  The claim without the restriction on the search text fails: the search text
  \<^verbatim>\<open>(500) Days\<close> does not find the title \<^verbatim>\<open>(500) Days of Summer\<close>, which contains it.
\<close>

theorem text_step_counterexample:
  "returned (filter_movies sample_library recommender0 [] (- 1) ''(500) Days'' (one_table [summer, batman])) = Inr [] \<and>
   title_matches ''(500) Days'' summer"
  by code_simp

text \<open>
  C5. \<^verbatim>\<open>get_genres\<close> does not return the tags of every table: on a table with a missing
  \<open>Genre\<close> cell it raises \<^verbatim>\<open>AttributeError\<close>, where \<^verbatim>\<open>filter_movies\<close> lets the same cell pass as
  a non-match (\<^verbatim>\<open>na=False\<close>).
\<close>

theorem get_genres_raises_on_missing:
  "get_genres recommender0 (one_table [m2015, no_genre, m2010]) = Inl AttributeError"
  by code_simp

text \<open>
  C6. A call of \<^verbatim>\<open>filter_movies\<close> leaves the table of the recommender, and every other table
  that existed before the call, as it was, whether the call returns or raises; the table
  it returns is a new one.
\<close>

theorem filter_movies_frame:
  assumes "df self < next_addr h"
    and "filter_movies lib self genres rating q h = (res, h')"
  shows "frames h' (df self) = frames h (df self) \<and>
         (\<forall>a < next_addr h. frames h' a = frames h a) \<and>
         (\<forall>a. res = Inr a \<longrightarrow> next_addr h \<le> a \<and> a \<noteq> df self)"
  using assms filter_movies_store [OF assms(2)] by auto

theorem filter_movies_frame_witness:
  "df recommender0 < next_addr (one_table [m2010, m2015]) \<and>
   frames (snd (filter_movies sample_library recommender0 [''Comedy''] 7 ''x'' (one_table [m2010, m2015]))) 0
     = [m2010, m2015] \<and>
   fst (filter_movies sample_library recommender0 [''Comedy''] 7 ''x'' (one_table [m2010, m2015])) = Inr 5"
proof -
  have a: "df recommender0 < next_addr (one_table [m2010, m2015])"
    by (simp add: recommender0_def one_table_def)
  obtain res h' where c:
    "filter_movies sample_library recommender0 [''Comedy''] 7 ''x'' (one_table [m2010, m2015]) = (res, h')"
    by (cases "filter_movies sample_library recommender0 [''Comedy''] 7 ''x'' (one_table [m2010, m2015])")
  have r: "fst (filter_movies sample_library recommender0 [''Comedy''] 7 ''x'' (one_table [m2010, m2015])) = Inr 5"
    by code_simp
  from filter_movies_frame [OF a c] have "frames h' (df recommender0) = frames (one_table [m2010, m2015]) (df recommender0)"
    by simp
  with a c r show ?thesis by (simp add: recommender0_def one_table_def)
qed

text \<open>
  C7, as the program has it. On a table whose \<open>Title\<close> and \<open>Genre\<close> columns are columns of
  strings, \<^verbatim>\<open>filter_movies\<close> returns a table, possibly an empty one, exactly when
  \<^verbatim>\<open>re.compile\<close> accepts each pattern the call uses: the selected tags joined with \<^verbatim>\<open>|\<close>, if a
  tag other than \<^verbatim>\<open>"All"\<close> is selected, and the lower-cased search text, if it is not empty.
  When the call raises, the exception is the one \<^verbatim>\<open>re.compile\<close> raised on one of these two
  patterns. Missing cells are never a reason to raise, and with tags and a search text
  free of special characters the call always returns.
\<close>

theorem filter_movies_returns:
  "((\<exists>out. returned (filter_movies lib self genres rating q h) = Inr out) \<longleftrightarrow>
      (selected_tags genres = [] \<or> compiles lib (join ''|'' (selected_tags genres)) True) \<and>
      (q = [] \<or> compiles lib (str_lower q) False)) \<and>
   (\<forall>e. returned (filter_movies lib self genres rating q h) = Inl e \<longrightarrow>
      (selected_tags genres \<noteq> [] \<and>
         re_compile lib (join ''|'' (selected_tags genres)) True = Inl e) \<or>
      (q \<noteq> [] \<and> re_compile lib (str_lower q) False = Inl e)) \<and>
   ((\<forall>g \<in> set (selected_tags genres). plain g) \<longrightarrow> plain q \<longrightarrow>
      (\<exists>out. returned (filter_movies lib self genres rating q h) = Inr out))"
proof -
  have r: "returned (filter_movies lib self genres rating q h) =
           filtered_rows lib (frames h (df self)) genres rating q"
    by (rule returned_filter_movies)
  have first: "(\<exists>out. returned (filter_movies lib self genres rating q h) = Inr out) \<longleftrightarrow>
      (selected_tags genres = [] \<or> compiles lib (join ''|'' (selected_tags genres)) True) \<and>
      (q = [] \<or> compiles lib (str_lower q) False)"
    unfolding r filtered_rows_def genre_keep_def title_keep_def compiles_def
    by (auto split: sum.splits)
  have second: "\<forall>e. returned (filter_movies lib self genres rating q h) = Inl e \<longrightarrow>
      (selected_tags genres \<noteq> [] \<and>
         re_compile lib (join ''|'' (selected_tags genres)) True = Inl e) \<or>
      (q \<noteq> [] \<and> re_compile lib (str_lower q) False = Inl e)"
    unfolding r filtered_rows_def genre_keep_def title_keep_def
    by (auto split: sum.splits)
  have third: "\<exists>out. returned (filter_movies lib self genres rating q h) = Inr out"
    if tags: "\<forall>g \<in> set (selected_tags genres). plain g" and q: "plain q"
  proof -
    have "selected_tags genres = [] \<or> compiles lib (join ''|'' (selected_tags genres)) True"
    proof (cases "selected_tags genres = []")
      case True
      then show ?thesis by simp
    next
      case False
      from re_compile_join_plain [OF False tags, of lib True] show ?thesis
        by (simp add: compiles_def)
    qed
    moreover have "compiles lib (str_lower q) False"
      using q by (intro plain_compiles plain_str_lower)
    ultimately show ?thesis using first by simp
  qed
  from first second third show ?thesis by blast
qed

theorem filter_movies_returns_witness:
  "compiles sample_library (join ''|'' (selected_tags [''All'', ''Comedy''])) True \<and>
   compiles sample_library (str_lower ''What?'') False \<and>
   returned (filter_movies sample_library recommender0 [''All'', ''Comedy''] 7 ''What?''
      (one_table [whale, blank_row, whatever])) = Inr [whatever] \<and>
   returned (filter_movies sample_library recommender0 [''Western''] 9 ''Zorro''
      (one_table [batman, blank_row])) = Inr []"
proof -
  have a: "compiles sample_library (join ''|'' (selected_tags [''All'', ''Comedy''])) True"
    by code_simp
  have b: "compiles sample_library (str_lower ''What?'') False"
    by code_simp
  have c: "returned (filter_movies sample_library recommender0 [''All'', ''Comedy''] 7 ''What?''
      (one_table [whale, blank_row, whatever])) = Inr [whatever]"
    by code_simp
  have d: "returned (filter_movies sample_library recommender0 [''Western''] 9 ''Zorro''
      (one_table [batman, blank_row])) = Inr []"
    by code_simp
  from a b
    filter_movies_returns [of sample_library recommender0 "[''All'', ''Comedy'']" 7 "''What?''"
      "one_table [whale, blank_row, whatever]"]
  have "\<exists>out. returned (filter_movies sample_library recommender0 [''All'', ''Comedy''] 7 ''What?''
      (one_table [whale, blank_row, whatever])) = Inr out"
    by blast
  with a b c d show ?thesis by simp
qed

text \<open>
  The claim that the call never raises fails: with the tag \<^verbatim>\<open>(\<close> selected beside
  \<^verbatim>\<open>Action\<close>, the pattern is \<^verbatim>\<open>Action|(\<close> and \<^verbatim>\<open>re.compile\<close> raises.
\<close>

theorem filter_movies_returns_counterexample:
  "returned (filter_movies sample_library recommender0 [''Action'', ''(''] (- 1) [] (one_table [batman])) = Inl ReError"
  by code_simp

text \<open>
  C8. Whatever the table, the criteria and the answers of the library, two calls of
  \<^verbatim>\<open>filter_movies\<close> with the same arguments, one after the other, return the same rows in
  the same order (or raise the same exception); and a call with the same criteria on the
  returned table returns its rows unchanged. (The witness has the search text \<^verbatim>\<open>what?\<close>,
  which is no pattern of the modelled syntax.)
\<close>

theorem filter_movies_repeat:
  assumes "df self < next_addr h"
    and "filter_movies lib self genres rating q h = (res1, h1)"
    and "filter_movies lib self genres rating q h1 = (res2, h2)"
  shows "returned (res2, h2) = returned (res1, h1) \<and>
         (\<forall>a. res1 = Inr a \<longrightarrow>
            returned (filter_movies lib \<lparr>df = a\<rparr> genres rating q h1) = returned (res1, h1))"
proof -
  have "frames h1 (df self) = frames h (df self)"
    using assms(1) filter_movies_store [OF assms(2)] by simp
  then have "returned (filter_movies lib self genres rating q h1) =
             returned (filter_movies lib self genres rating q h)"
    by (simp add: returned_filter_movies)
  with assms have first: "returned (res2, h2) = returned (res1, h1)" by simp
  have "returned (filter_movies lib \<lparr>df = a\<rparr> genres rating q h1) = returned (res1, h1)"
    if "res1 = Inr a" for a
  proof -
    from that have r: "returned (res1, h1) = Inr (frames h1 a)"
      by (simp add: returned_def)
    with assms(2) have "filtered_rows lib (frames h (df self)) genres rating q = Inr (frames h1 a)"
      using returned_filter_movies [of lib self genres rating q h] by simp
    then have "filtered_rows lib (frames h1 a) genres rating q = Inr (frames h1 a)"
      by (rule filtered_rows_again)
    with r show ?thesis by (simp add: returned_filter_movies)
  qed
  with first show ?thesis by simp
qed

theorem filter_movies_repeat_witness:
  "df recommender0 < next_addr (one_table [whale, batman, whatever]) \<and>
   returned (filter_movies sample_library recommender0 [''Action'', ''Drama''] 0 ''what?''
      (snd (filter_movies sample_library recommender0 [''Action'', ''Drama''] 0 ''what?''
              (one_table [whale, batman, whatever]))))
     = returned (filter_movies sample_library recommender0 [''Action'', ''Drama''] 0 ''what?''
                   (one_table [whale, batman, whatever])) \<and>
   returned (filter_movies sample_library recommender0 [''Action'', ''Drama''] 0 ''what?''
      (one_table [whale, batman, whatever])) = Inr [whale]"
proof -
  have a: "df recommender0 < next_addr (one_table [whale, batman, whatever])"
    by (simp add: recommender0_def one_table_def)
  have r: "returned (filter_movies sample_library recommender0 [''Action'', ''Drama''] 0 ''what?''
      (one_table [whale, batman, whatever])) = Inr [whale]"
    by code_simp
  from filter_movies_repeat [OF a surjective_pairing surjective_pairing]
  have "returned (filter_movies sample_library recommender0 [''Action'', ''Drama''] 0 ''what?''
      (snd (filter_movies sample_library recommender0 [''Action'', ''Drama''] 0 ''what?''
              (one_table [whale, batman, whatever]))))
     = returned (filter_movies sample_library recommender0 [''Action'', ''Drama''] 0 ''what?''
                   (one_table [whale, batman, whatever]))"
    by simp
  with a r show ?thesis by simp
qed

text \<open>
  C9. The selected tags, joined with \<^verbatim>\<open>|\<close>, and the search text are regular expressions to
  \<^verbatim>\<open>filter_movies\<close>, not literal strings. Whatever the library answers: with the tag \<^verbatim>\<open>(\<close> alone, or with the search text
  \<^verbatim>\<open>(\<close>, every call raises \<^verbatim>\<open>re.error\<close>; the tag \<^verbatim>\<open>.\<close> keeps a row whose \<open>Genre\<close> has no dot,
  and the search text \<^verbatim>\<open>wall.e\<close> keeps the title \<^verbatim>\<open>WALL-E\<close>.
\<close>

theorem regex_interpretation:
  "returned (filter_movies lib self [''(''] rating q h) = Inl ReError \<and>
   returned (filter_movies lib self [] rating ''('' h) = Inl ReError \<and>
   returned (filter_movies lib recommender0 [''.''] 0 [] (one_table [batman, no_genre])) = Inr [batman] \<and>
   \<not> genre_matches [''.''] batman \<and>
   returned (filter_movies lib recommender0 [] 0 ''wall.e'' (one_table [batman, walle])) = Inr [walle] \<and>
   \<not> title_matches ''wall.e'' walle"
proof -
  have a: "returned (filter_movies lib self [''(''] rating q h) = Inl ReError"
    by (simp add: returned_filter_movies filtered_rows_def genre_keep_def selected_tags_def
        re_compile_def max_group_depth_def)
  have b: "returned (filter_movies lib self [] rating ''('' h) = Inl ReError"
    by (simp add: returned_filter_movies filtered_rows_def genre_keep_def title_keep_def
        selected_tags_def re_compile_def str_lower_def lower_char_def max_group_depth_def)
  have c: "returned (filter_movies lib recommender0 [''.''] 0 [] (one_table [batman, no_genre])) = Inr [batman] \<and>
   \<not> genre_matches [''.''] batman"
    by code_simp
  have d: "returned (filter_movies lib recommender0 [] 0 ''wall.e'' (one_table [batman, walle])) = Inr [walle] \<and>
   \<not> title_matches ''wall.e'' walle"
    by code_simp
  from a b c d show ?thesis by simp
qed

text \<open>
  C10. On every table in which some row has a missing \<open>Genre\<close>, \<^verbatim>\<open>get_genres\<close> raises
  \<^verbatim>\<open>AttributeError\<close>.
\<close>

theorem get_genres_missing_genre:
  assumes "m \<in> set (frames h (df self))" and "Genre m = None"
  shows "get_genres self h = Inl AttributeError"
proof -
  from assms have "None \<in> set (column Genre (df self) h)"
    by (force simp: column_def)
  then show ?thesis by (simp add: get_genres_def genres_loop_missing)
qed

theorem get_genres_missing_genre_witness:
  "no_genre \<in> set (frames (one_table [m2010, no_genre]) (df recommender0)) \<and>
   Genre no_genre = None \<and>
   get_genres recommender0 (one_table [m2010, no_genre]) = Inl AttributeError"
proof -
  have a: "no_genre \<in> set (frames (one_table [m2010, no_genre]) (df recommender0))"
    by (simp add: recommender0_def one_table_def)
  have b: "Genre no_genre = None"
    by (simp add: no_genre_def blank_row_def)
  from get_genres_missing_genre [OF a b] a b show ?thesis by simp
qed

end
